theory Spec2Isabelle
  imports Complex_Main
begin

section \<open>Values, errors and arrays\<close>

text \<open>
  The loader of \<^verbatim>\<open>chemcomp_loader/planet_loader.py\<close> reads a PyTables file and a
  configuration mapping into the attributes of one Python object. Exceptions are values of
  type \<open>error\<close>; every place where the source can raise is a branch that returns one.
\<close>

datatype error =
    IOError
  | NoSuchNodeError
  | IndexError
  | AxisError
  | TypeError
  | AttributeError
  | ConfigParseError
  | EvaluationError

text \<open>
  A NumPy array is its shape and its elements in row-major order. The element type is a
  parameter: the loader only moves elements and divides them by a constant, so nothing
  here depends on how the elements' arithmetic rounds.
\<close>

datatype 'a ndarray = NDArray (shape: "nat list") (data: "'a list")

text \<open>
  The values an attribute can hold: the typed results of evaluating configuration text,
  the list of names \<open>disc_quantities\<close>, an array, and a composition view (an object
  whose attributes are arrays, one per species name).
\<close>

datatype 'a pyval =
    PyNone
  | PyBool bool
  | PyInt int
  | PyFloat real
  | PyStr string
  | PyList "string list"
  | Array "'a ndarray"
  | Instance "string \<Rightarrow> 'a ndarray option"

type_synonym 'a obj = "string \<Rightarrow> 'a pyval option"

subsection \<open>The array operations the source uses\<close>

text \<open>\<^verbatim>\<open>np.array(x) / c\<close>: element-wise division, the shape kept.\<close>

definition np_div :: "'a::inverse ndarray \<Rightarrow> 'a \<Rightarrow> 'a ndarray" where
  "np_div a c = NDArray (shape a) (map (\<lambda>x. x / c) (data a))"

text \<open>
  \<^verbatim>\<open>a[:, k]\<close>: the index \<open>k\<close> on the second axis, every position of the first. With
  fewer than two axes, or \<open>k\<close> outside the second axis, NumPy raises IndexError. The
  block of \<open>a[i, k]\<close> starts at offset \<open>(i * s1 + k) * r\<close> with \<open>r\<close> the size of one
  such block.
\<close>

definition getitem_col :: "'a ndarray \<Rightarrow> nat \<Rightarrow> error + 'a ndarray" where
  "getitem_col a k =
     (case shape a of
        s0 # s1 # rest \<Rightarrow>
          if k < s1
          then Inr (NDArray (s0 # rest)
                 (concat (map (\<lambda>i. take (prod_list rest) (drop ((i * s1 + k) * prod_list rest) (data a)))
                    [0..<s0])))
          else Inl IndexError
      | _ \<Rightarrow> Inl IndexError)"

text \<open>
  \<^verbatim>\<open>a.swapaxes(0, 1)\<close>: the element at \<open>[j, i, ...]\<close> of the result is the one at
  \<open>[i, j, ...]\<close> of \<open>a\<close>. With fewer than two axes NumPy raises AxisError.
\<close>

definition swapaxes01 :: "'a ndarray \<Rightarrow> error + 'a ndarray" where
  "swapaxes01 a =
     (case shape a of
        s0 # s1 # rest \<Rightarrow>
          Inr (NDArray (s1 # s0 # rest)
            (concat (map (\<lambda>j. concat (map (\<lambda>i.
                 take (prod_list rest) (drop ((i * s1 + j) * prod_list rest) (data a))) [0..<s0]))
               [0..<s1])))
      | _ \<Rightarrow> Inl AxisError)"

text \<open>
  Iterating an array (what \<^verbatim>\<open>zip\<close> does with its argument) yields \<open>a[0]\<close>,
  \<open>a[1]\<close>, ... along the first axis; a 0-dimensional array is not iterable (TypeError).
\<close>

definition iter_first_axis :: "'a ndarray \<Rightarrow> error + 'a ndarray list" where
  "iter_first_axis a =
     (case shape a of
        [] \<Rightarrow> Inl TypeError
      | s0 # rest \<Rightarrow>
          Inr (map (\<lambda>i. NDArray rest (take (prod_list rest) (drop (i * prod_list rest) (data a))))
                 [0..<s0]))"

section \<open>The simulation file\<close>

text \<open>
  A group node of the file: \<open>listing\<close> is what Python's \<^verbatim>\<open>dir(node)\<close> returns (the
  names of the node's members, in the order \<^verbatim>\<open>dir\<close> gives them), \<open>children\<close> is
  natural-name access to the arrays stored under the node (\<^verbatim>\<open>node.M\<close>). A file maps
  node paths to groups; the file system maps a path to a file that can be opened, or to
  nothing.
\<close>

record 'a group =
  listing :: "string list"
  children :: "string \<Rightarrow> 'a ndarray option"

type_synonym 'a h5file = "string \<Rightarrow> 'a group option"

type_synonym 'a filesystem = "string \<Rightarrow> 'a h5file option"

text \<open>The file handles: which paths are open now, and the history of opens and closes.\<close>

datatype event = Opened string | Closed string

record io =
  handles :: "string list"
  trace :: "event list"

text \<open>
  The unit constants of lines 9 and 10: \<^verbatim>\<open>(1*u.au).cgs.value\<close> is the astronomical unit
  in centimetres and \<^verbatim>\<open>(1*u.Myr).cgs.value\<close> is a million Julian years in seconds.
\<close>

definition AU :: "'a::numeral" where
  "AU = 14959787070000"

definition Myr :: "'a::numeral" where
  "Myr = 31557600000000"

subsection \<open>\<^verbatim>\<open>Planet_class.load_planet\<close>\<close>

text \<open>
  Line 44, \<^verbatim>\<open>[q for q in dir(node) if q[0] != '_']\<close>: \<open>q[0]\<close> of an empty name raises
  IndexError.
\<close>

fun public_names :: "string list \<Rightarrow> error + string list" where
  "public_names [] = Inr []"
| "public_names (q # qs) =
     (case q of
        [] \<Rightarrow> Inl IndexError
      | c # _ \<Rightarrow>
          (case public_names qs of
             Inl e \<Rightarrow> Inl e
           | Inr r \<Rightarrow> Inr (if c \<noteq> CHR ''_'' then q # r else r)))"

text \<open>
  \<^verbatim>\<open>np.array(leaf)\<close> on a stored array: NumPy reads the leaf as the sequence of its rows
  (the entries along the first axis). A stored array with at least one row comes back as
  it is stored. One whose first axis is empty comes back as the empty one-dimensional
  array, whatever its other axes are; a 0-dimensional one comes back as a one-dimensional
  array holding its single element.
\<close>

definition np_array :: "'a ndarray \<Rightarrow> 'a ndarray" where
  "np_array leaf =
     (case shape leaf of
        [] \<Rightarrow> NDArray [1] (data leaf)
      | s0 # rest \<Rightarrow> if s0 = 0 then NDArray [0] [] else leaf)"

text \<open>
  Lines 46 to 76, in the order of the source: the name of the field and what is done to the
  array read from it. \<open>Verbatim\<close> is \<^verbatim>\<open>np.array(x)\<close>; only \<open>a_p\<close> (line 52,
  \<^verbatim>\<open>np.array(x) / AU\<close>) and \<open>t\<close> (line 74, \<^verbatim>\<open>np.array(x) / Myr\<close>) are rescaled.
\<close>

datatype conversion = Verbatim | Per_AU | Per_Myr

fun convert :: "conversion \<Rightarrow> 'a::{inverse,numeral} ndarray \<Rightarrow> 'a ndarray" where
  "convert Verbatim x = np_array x"
| "convert Per_AU x = np_div (np_array x) AU"
| "convert Per_Myr x = np_div (np_array x) Myr"

definition planet_fields :: "(string \<times> conversion) list" where
  "planet_fields =
    [(''M'', Verbatim),
     (''M_a'', Verbatim),
     (''M_c'', Verbatim),
     (''M_z_gas'', Verbatim),
     (''M_z_peb'', Verbatim),
     (''T'', Verbatim),
     (''a_p'', Per_AU),
     (''comp_a'', Verbatim),
     (''comp_c'', Verbatim),
     (''fSigma'', Verbatim),
     (''gamma_norm'', Verbatim),
     (''gamma_tot'', Verbatim),
     (''m_dot_a_chem_gas'', Verbatim),
     (''m_dot_a_chem_peb'', Verbatim),
     (''m_dot_a_gas'', Verbatim),
     (''m_dot_a_peb'', Verbatim),
     (''m_dot_c_chem_gas'', Verbatim),
     (''m_dot_c_chem_peb'', Verbatim),
     (''m_dot_c_gas'', Verbatim),
     (''m_dot_c_peb'', Verbatim),
     (''m_dot_gas'', Verbatim),
     (''m_dot_peb'', Verbatim),
     (''peb_iso'', Verbatim),
     (''pebble_flux'', Verbatim),
     (''regime_gas'', Verbatim),
     (''regime_peb'', Verbatim),
     (''sigma_g'', Verbatim),
     (''sigma_peb'', Verbatim),
     (''t'', Per_Myr),
     (''tau_m'', Verbatim),
     (''units'', Verbatim)]"

text \<open>
  \<^verbatim>\<open>np.array(f.root.planet.<name>)\<close>: a node that is not there raises NoSuchNodeError.
\<close>

definition read_leaf :: "'a h5file \<Rightarrow> string \<Rightarrow> error + 'a ndarray" where
  "read_leaf f name =
     (case f ''/planet'' of
        None \<Rightarrow> Inl NoSuchNodeError
      | Some node \<Rightarrow>
          (case children node name of
             None \<Rightarrow> Inl NoSuchNodeError
           | Some a \<Rightarrow> Inr a))"

text \<open>
  The assignments run in order and stop at the first read that raises; the attributes
  set before it stay set on the object (which the caller then never receives).
\<close>

fun load_fields ::
  "'a::{inverse,numeral} h5file \<Rightarrow> (string \<times> conversion) list \<Rightarrow> 'a obj \<Rightarrow> error option \<times> 'a obj" where
  "load_fields f [] self = (None, self)"
| "load_fields f ((name, conv) # rest) self =
     (case read_leaf f name of
        Inl e \<Rightarrow> (Some e, self)
      | Inr a \<Rightarrow> load_fields f rest (self(name \<mapsto> Array (convert conv a))))"

text \<open>The body of the \<^verbatim>\<open>with\<close> block, lines 44 to 76.\<close>

definition load_body :: "'a::{inverse,numeral} h5file \<Rightarrow> 'a obj \<Rightarrow> error option \<times> 'a obj" where
  "load_body f self =
     (case f ''/planet'' of
        None \<Rightarrow> (Some NoSuchNodeError, self)
      | Some node \<Rightarrow>
          (case public_names (listing node) of
             Inl e \<Rightarrow> (Some e, self)
           | Inr qs \<Rightarrow> load_fields f planet_fields (self(''disc_quantities'' \<mapsto> PyList qs))))"

text \<open>
  Line 43, \<^verbatim>\<open>with tables.open_file(file_path, mode='r') as f\<close>: when the file cannot be
  opened nothing is acquired; otherwise the handle is open while the body runs and is
  closed when the body is left, whether it returned or raised.
\<close>

definition load_planet ::
  "'a::{inverse,numeral} filesystem \<Rightarrow> string \<Rightarrow> 'a obj \<Rightarrow> io \<Rightarrow> (error option \<times> 'a obj) \<times> io" where
  "load_planet fs file_path self s =
     (case fs file_path of
        None \<Rightarrow> ((Some IOError, self), s)
      | Some f \<Rightarrow>
          (let s1 = s\<lparr>handles := file_path # handles s, trace := trace s @ [Opened file_path]\<rparr>;
               r = load_body f self
           in (r, s1\<lparr>handles := remove1 file_path (handles s1),
                       trace := trace s1 @ [Closed file_path]\<rparr>)))"


section \<open>The configuration\<close>

text \<open>
  \<^verbatim>\<open>import_config\<close> and \<^verbatim>\<open>eval_kwargs\<close> come from \<^verbatim>\<open>chemcomp_loader/import_config.py\<close>,
  which is not among the sources. \<^verbatim>\<open>import_config\<close> is a parameter of the functions
  below: it maps the path of a configuration file to the parsed mapping of mappings, whose
  leaves are text, or raises.
\<close>

type_synonym cfg_section = "string \<Rightarrow> string option"

type_synonym config = "string \<Rightarrow> cfg_section option"

text \<open>
  Modelled from the spec: \<^verbatim>\<open>eval_kwargs\<close> of \<^verbatim>\<open>chemcomp_loader/import_config.py\<close>
  (section 4.2): a value that is not present yields the null value, not an error; a textual
  value is handed to the expression evaluation \<open>pyeval\<close>, which returns its typed runtime
  value or raises.
\<close>

definition eval_kwargs :: "(string \<Rightarrow> error + 'a pyval) \<Rightarrow> string option \<Rightarrow> error + 'a pyval" where
  "eval_kwargs pyeval v = (case v of None \<Rightarrow> Inr PyNone | Some txt \<Rightarrow> pyeval txt)"

text \<open>
  Modelled from the spec: the expression evaluation on literal text (sections 4.2 and 9:
  it recognizes booleans, numbers and null, evaluating \<^verbatim>\<open>"True"\<close>, \<^verbatim>\<open>"1.5"\<close>,
  \<^verbatim>\<open>"None"\<close> into the corresponding typed value). Numbers are unsigned decimal
  literals, with or without a point; a float is the real number its literal denotes. Any
  other text is outside this model and raises.
\<close>

definition digit_of :: "char \<Rightarrow> nat option" where
  "digit_of c =
     (let code = (of_char c :: nat)
      in if 48 \<le> code \<and> code \<le> 57 then Some (code - 48) else None)"

fun digits_value :: "nat \<Rightarrow> string \<Rightarrow> nat option" where
  "digits_value acc [] = Some acc"
| "digits_value acc (c # cs) =
     (case digit_of c of None \<Rightarrow> None | Some d \<Rightarrow> digits_value (10 * acc + d) cs)"

definition parse_number :: "string \<Rightarrow> 'a pyval option" where
  "parse_number txt =
     (let ip = takeWhile (\<lambda>c. c \<noteq> CHR ''.'') txt;
          rest = dropWhile (\<lambda>c. c \<noteq> CHR ''.'') txt
      in if rest = []
         then (if ip = [] then None else map_option (\<lambda>n. PyInt (int n)) (digits_value 0 ip))
         else (let fp = tl rest
               in if ip = [] \<and> fp = [] then None
                  else (case (digits_value 0 ip, digits_value 0 fp) of
                          (Some a, Some b) \<Rightarrow> Some (PyFloat (real a + real b / 10 ^ length fp))
                        | _ \<Rightarrow> None)))"

definition literal_eval :: "string \<Rightarrow> error + 'a pyval" where
  "literal_eval txt =
     (if txt = ''True'' then Inr (PyBool True)
      else if txt = ''False'' then Inr (PyBool False)
      else if txt = ''None'' then Inr PyNone
      else (case parse_number txt of Some v \<Rightarrow> Inr v | None \<Rightarrow> Inl EvaluationError))"

subsection \<open>\<^verbatim>\<open>Planet_class.load_parameters_from_config\<close>\<close>

text \<open>
  Lines 87 to 99, in the order of the source: the attribute that is assigned and the value
  looked up for it, \<^verbatim>\<open>section.get(key, None)\<close>.
\<close>

definition config_options :: "cfg_section \<Rightarrow> cfg_section \<Rightarrow> (string \<times> string option) list" where
  "config_options config_disk config_planetesimal_accretion =
    [(''matter_removal'', config_disk ''matter_removal''),
     (''use_heat_torque'', config_disk ''use_heat_torque''),
     (''use_dynamical_torque'', config_disk ''use_dynamical_torque''),
     (''migration'', config_disk ''migration''),
     (''M0_fact'', config_disk ''M0_fact''),
     (''a_p'', config_disk ''a_p''),
     (''t_0'', config_disk ''t_0''),
     (''rho_c'', config_disk ''rho_c''),
     (''r_in'', config_disk ''r_in''),
     (''keep_peb_iso'', config_disk ''keep_peb_iso''),
     (''use_pebiso_diffusion'', config_disk ''use_pebiso_diffusion''),
     (''R_pla'', config_planetesimal_accretion ''R_pla''),
     (''rho_pla'', config_planetesimal_accretion ''rho_pla'')]"

text \<open>
  Each assignment evaluates its value and sets the attribute; the first evaluation that
  raises ends the method, with the earlier attributes already set.
\<close>

fun assign_options ::
  "(string \<Rightarrow> error + 'a pyval) \<Rightarrow> (string \<times> string option) list \<Rightarrow> 'a obj \<Rightarrow> error option \<times> 'a obj" where
  "assign_options pyeval [] self = (None, self)"
| "assign_options pyeval ((name, v) # rest) self =
     (case eval_kwargs pyeval v of
        Inl e \<Rightarrow> (Some e, self)
      | Inr x \<Rightarrow> assign_options pyeval rest (self(name \<mapsto> x)))"

text \<open>\<^verbatim>\<open>config.get(key, {})\<close>, line 84 and line 85.\<close>

definition get_section :: "config \<Rightarrow> string \<Rightarrow> cfg_section" where
  "get_section config key = (case config key of None \<Rightarrow> Map.empty | Some sec \<Rightarrow> sec)"

definition load_parameters_from_config ::
  "(string \<Rightarrow> error + config) \<Rightarrow> (string \<Rightarrow> error + 'a pyval) \<Rightarrow> string \<Rightarrow> 'a obj \<Rightarrow> error option \<times> 'a obj" where
  "load_parameters_from_config import_config pyeval config_file_path self =
     (case import_config config_file_path of
        Inl e \<Rightarrow> (Some e, self)
      | Inr config \<Rightarrow>
          (let config_disk = get_section config ''config_planet'';
               config_planetesimal_accretion = get_section config ''config_planetesimal_accretion''
           in assign_options pyeval (config_options config_disk config_planetesimal_accretion) self))"

section \<open>The composition views\<close>

text \<open>
  \<^verbatim>\<open>element_array\<close> and \<^verbatim>\<open>molecule_array\<close> come from \<^verbatim>\<open>chemistry_properties.py\<close>, which
  is not among the sources: the two name lists are parameters.

  \<^verbatim>\<open>for name, component in zip(names, components): setattr(self, name, component)\<close>.
  The loop ends with the shorter of the two sequences; a name that is set twice keeps the
  later component.
\<close>

fun fan_out :: "string list \<Rightarrow> 'a ndarray list \<Rightarrow> (string \<Rightarrow> 'a ndarray option) \<Rightarrow> (string \<Rightarrow> 'a ndarray option)" where
  "fan_out [] comps self = self"
| "fan_out (name # names) [] self = self"
| "fan_out (name # names) (component # comps) self = fan_out names comps (self(name \<mapsto> component))"

text \<open>\<^verbatim>\<open>comp[:, layer].swapaxes(0, 1)\<close>, made a sequence by \<^verbatim>\<open>zip\<close>.\<close>

definition layer_components :: "'a ndarray \<Rightarrow> nat \<Rightarrow> error + 'a ndarray list" where
  "layer_components composition layer =
     (case getitem_col composition layer of
        Inl e \<Rightarrow> Inl e
      | Inr col \<Rightarrow>
          (case swapaxes01 col of
             Inl e \<Rightarrow> Inl e
           | Inr swapped \<Rightarrow> iter_first_axis swapped))"

text \<open>
  \<^verbatim>\<open>super.comp_a\<close> and \<^verbatim>\<open>super.comp_c\<close>: AttributeError when the attribute is not set;
  indexing a value that is not an array with \<^verbatim>\<open>[:, 0]\<close> raises TypeError.
\<close>

definition getattr_array :: "'a obj \<Rightarrow> string \<Rightarrow> error + 'a ndarray" where
  "getattr_array self name =
     (case self name of
        None \<Rightarrow> Inl AttributeError
      | Some (Array a) \<Rightarrow> Inr a
      | Some _ \<Rightarrow> Inl TypeError)"

text \<open>
  The two loops of a view, lines 112 to 119 and lines 125 to 132: elements from layer 0,
  then molecules from layer 1, as attributes of the same object.
\<close>

definition build_view ::
  "string list \<Rightarrow> string list \<Rightarrow> 'a obj \<Rightarrow> string \<Rightarrow> error + (string \<Rightarrow> 'a ndarray option)" where
  "build_view element_array molecule_array super comp_name =
     (case getattr_array super comp_name of
        Inl e \<Rightarrow> Inl e
      | Inr comp0 \<Rightarrow>
          (case layer_components comp0 0 of
             Inl e \<Rightarrow> Inl e
           | Inr element_components \<Rightarrow>
               (let self1 = fan_out element_array element_components Map.empty
                in (case getattr_array super comp_name of
                      Inl e \<Rightarrow> Inl e
                    | Inr comp1 \<Rightarrow>
                        (case layer_components comp1 1 of
                           Inl e \<Rightarrow> Inl e
                         | Inr molecule_components \<Rightarrow>
                             Inr (fan_out molecule_array molecule_components self1))))))"

definition Planet_atmo :: "string list \<Rightarrow> string list \<Rightarrow> 'a obj \<Rightarrow> error + (string \<Rightarrow> 'a ndarray option)" where
  "Planet_atmo element_array molecule_array super = build_view element_array molecule_array super ''comp_a''"

definition Planet_core :: "string list \<Rightarrow> string list \<Rightarrow> 'a obj \<Rightarrow> error + (string \<Rightarrow> 'a ndarray option)" where
  "Planet_core element_array molecule_array super = build_view element_array molecule_array super ''comp_c''"

section \<open>The constructor\<close>

text \<open>
  \<^verbatim>\<open>Planet_class.__init__\<close>, lines 24 to 28, on a new object with no attribute. An
  exception in any of the four steps leaves the constructor: the caller gets the
  exception and no object.
\<close>

definition Planet_class ::
  "'a::{inverse,numeral} filesystem \<Rightarrow> (string \<Rightarrow> error + config) \<Rightarrow> (string \<Rightarrow> error + 'a pyval) \<Rightarrow>
   string list \<Rightarrow> string list \<Rightarrow> string \<Rightarrow> string \<Rightarrow> io \<Rightarrow> (error + 'a obj) \<times> io" where
  "Planet_class fs import_config pyeval element_array molecule_array file_path config_file_path s =
     (case load_planet fs file_path Map.empty s of
        ((Some e, self1), s1) \<Rightarrow> (Inl e, s1)
      | ((None, self1), s1) \<Rightarrow>
          (case load_parameters_from_config import_config pyeval config_file_path self1 of
             (Some e, self2) \<Rightarrow> (Inl e, s1)
           | (None, self2) \<Rightarrow>
               (case Planet_atmo element_array molecule_array self2 of
                  Inl e \<Rightarrow> (Inl e, s1)
                | Inr atmo \<Rightarrow>
                    (let self3 = self2(''atmo'' \<mapsto> Instance atmo)
                     in (case Planet_core element_array molecule_array self3 of
                           Inl e \<Rightarrow> (Inl e, s1)
                         | Inr core \<Rightarrow> (Inr (self3(''core'' \<mapsto> Instance core)), s1))))))"

section \<open>Notions used in the statements\<close>

text \<open>
  The enumerated field set of the simulation file: the thirty-one names of the record's
  file attributes, written out here on their own and not taken from the loader's table.
  After them, the thirteen names set from the configuration.
\<close>

definition planet_field_names :: "string list" where
  "planet_field_names =
    [''M'', ''M_a'', ''M_c'', ''M_z_gas'',
     ''M_z_peb'', ''T'', ''a_p'', ''comp_a'',
     ''comp_c'', ''fSigma'', ''gamma_norm'', ''gamma_tot'',
     ''m_dot_a_chem_gas'', ''m_dot_a_chem_peb'', ''m_dot_a_gas'', ''m_dot_a_peb'',
     ''m_dot_c_chem_gas'', ''m_dot_c_chem_peb'', ''m_dot_c_gas'', ''m_dot_c_peb'',
     ''m_dot_gas'', ''m_dot_peb'', ''peb_iso'', ''pebble_flux'',
     ''regime_gas'', ''regime_peb'', ''sigma_g'', ''sigma_peb'',
     ''t'', ''tau_m'', ''units'']"

definition config_fields :: "string list" where
  "config_fields =
    [''matter_removal'',
     ''use_heat_torque'',
     ''use_dynamical_torque'',
     ''migration'',
     ''M0_fact'',
     ''a_p'',
     ''t_0'',
     ''rho_c'',
     ''r_in'',
     ''keep_peb_iso'',
     ''use_pebiso_diffusion'',
     ''R_pla'',
     ''rho_pla'']"

text \<open>
  A valid input file: it holds the group \<^verbatim>\<open>/planet\<close>, no listed member name is empty,
  and every one of the thirty-one enumerated fields is stored under the group.
\<close>

definition valid_file :: "'a h5file \<Rightarrow> bool" where
  "valid_file f =
     (case f ''/planet'' of
        None \<Rightarrow> False
      | Some node \<Rightarrow>
          [] \<notin> set (listing node) \<and> list_all (\<lambda>k. children node k \<noteq> None) planet_field_names)"

text \<open>
  The section an option is read from: the two planetesimal options from
  \<^verbatim>\<open>config_planetesimal_accretion\<close>, the other eleven from \<^verbatim>\<open>config_planet\<close>.
\<close>

definition own_section :: "string \<Rightarrow> string" where
  "own_section k =
     (if k = ''R_pla'' \<or> k = ''rho_pla'' then ''config_planetesimal_accretion'' else ''config_planet'')"

text \<open>
  What the configuration says about an option: the text given for it in its own section,
  or nothing when the section is absent or does not give the option. This reads the parsed
  configuration directly.
\<close>

definition configured_text :: "config \<Rightarrow> string \<Rightarrow> string option" where
  "configured_text config k =
     (case config (own_section k) of None \<Rightarrow> None | Some sec \<Rightarrow> sec k)"

text \<open>A stored array with at least one axis and at least one entry along the first axis.\<close>

definition has_rows :: "'a ndarray \<Rightarrow> bool" where
  "has_rows a = (case shape a of [] \<Rightarrow> False | s0 # rest \<Rightarrow> 0 < s0)"

text \<open>
  Direct indexing of a three-dimensional array with shape \<open>[steps, layers, species]\<close>:
  \<open>element_at a i l j\<close> is \<^verbatim>\<open>a[i, l, j]\<close>, and \<open>species_series a l j\<close> is \<^verbatim>\<open>a[:, l, j]\<close>,
  the values of species \<open>j\<close> of layer \<open>l\<close>, one per step.
\<close>

definition element_at :: "'a ndarray \<Rightarrow> nat \<Rightarrow> nat \<Rightarrow> nat \<Rightarrow> 'a" where
  "element_at a i l j = data a ! ((i * (shape a ! 1) + l) * (shape a ! 2) + j)"

definition species_series :: "'a ndarray \<Rightarrow> nat \<Rightarrow> nat \<Rightarrow> 'a ndarray" where
  "species_series a l j = NDArray [shape a ! 0] (map (\<lambda>i. element_at a i l j) [0..<shape a ! 0])"

text \<open>A well-formed three-dimensional array: as many elements as its shape says.\<close>

definition array3 :: "'a ndarray \<Rightarrow> nat \<Rightarrow> nat \<Rightarrow> nat \<Rightarrow> bool" where
  "array3 a steps layers species =
     (shape a = [steps, layers, species] \<and> length (data a) = steps * layers * species)"

section \<open>Example inputs\<close>

text \<open>
  A small file system for the concrete runs below: \<open>simulation.h5\<close> holds every field
  (two steps of \<open>a_p\<close> and \<open>t\<close>, a composition array of one step, two layers and one
  species everywhere else), \<open>broken.h5\<close> is the same file without the field \<open>t\<close>,
  \<open>zero_steps.h5\<close> holds every field with no step at all (the two composition arrays
  have shape \<open>[0, 2, 1]\<close>, the other fields shape \<open>[0]\<close>), and no other path can be
  opened. \<open>config.yaml\<close> gives the planet section the two options
  \<^verbatim>\<open>migration: "False"\<close> and \<^verbatim>\<open>a_p: "0.1"\<close>; \<open>empty.yaml\<close> has no section;
  \<open>mixed.yaml\<close> has both sections, each with an option that belongs to the other one
  (\<open>R_pla\<close> in the planet section, \<open>migration\<close> in the planetesimal section).
\<close>

definition example_node :: "real group" where
  "example_node =
     \<lparr>listing = [''_f_close'', ''_v_name''] @ planet_field_names,
      children = (\<lambda>k. if k = ''a_p'' then Some (NDArray [2] [29919574140000, 14959787070000])
                       else if k = ''t'' then Some (NDArray [2] [0, 31557600000000])
                       else if k \<in> set planet_field_names then Some (NDArray [1, 2, 1] [1, 2])
                       else None)\<rparr>"

definition example_file :: "real h5file" where
  "example_file = [''/planet'' \<mapsto> example_node]"

definition broken_file :: "real h5file" where
  "broken_file = [''/planet'' \<mapsto> example_node\<lparr>children := (children example_node)(''t'' := None)\<rparr>]"

definition zero_step_node :: "real group" where
  "zero_step_node =
     \<lparr>listing = planet_field_names,
      children = (\<lambda>k. if k = ''comp_a'' \<or> k = ''comp_c'' then Some (NDArray [0, 2, 1] [])
                       else if k \<in> set planet_field_names then Some (NDArray [0] [])
                       else None)\<rparr>"

definition zero_step_file :: "real h5file" where
  "zero_step_file = [''/planet'' \<mapsto> zero_step_node]"

definition example_fs :: "real filesystem" where
  "example_fs =
     [''simulation.h5'' \<mapsto> example_file, ''broken.h5'' \<mapsto> broken_file,
      ''zero_steps.h5'' \<mapsto> zero_step_file]"

definition example_io :: io where
  "example_io = \<lparr>handles = [], trace = []\<rparr>"

definition example_config :: "string \<Rightarrow> error + config" where
  "example_config path =
     (if path = ''config.yaml''
      then Inr [''config_planet'' \<mapsto> [''migration'' \<mapsto> ''False'', ''a_p'' \<mapsto> ''0.1'']]
      else if path = ''empty.yaml'' then Inr Map.empty
      else if path = ''mixed.yaml''
      then Inr [''config_planet'' \<mapsto>
                  [''migration'' \<mapsto> ''False'', ''a_p'' \<mapsto> ''0.1'', ''R_pla'' \<mapsto> ''7''],
                ''config_planetesimal_accretion'' \<mapsto>
                  [''rho_pla'' \<mapsto> ''1.5'', ''migration'' \<mapsto> ''True'']]
      else Inl ConfigParseError)"

section \<open>Slicing, swapping and iterating a composition array\<close>

text \<open>
  A row-major array is a concatenation of equal blocks; taking a piece that lies inside
  block \<open>j\<close> only looks at that block.
\<close>

lemma length_concat_blocks:
  "(\<And>i. i < n \<Longrightarrow> length (f i) = r) \<Longrightarrow> length (concat (map f [0..<n])) = n * r"
  by (induction n) auto

lemma take_drop_concat_blocks:
  assumes "\<And>i. i < n \<Longrightarrow> length (f i) = r" and "j < n" and "q + m \<le> r"
  shows "take m (drop (j * r + q) (concat (map f [0..<n]))) = take m (drop q (f j))"
  using assms
proof (induction n)
  case 0
  then show ?case by simp
next
  case (Suc n)
  have len: "length (concat (map f [0..<n])) = n * r"
    using Suc.prems(1) by (simp add: length_concat_blocks)
  show ?case
  proof (cases "j < n")
    case True
    then have "Suc j \<le> n" by simp
    then have "Suc j * r \<le> n * r" by (rule mult_le_mono1)
    then have "j * r + q + m \<le> n * r" using Suc.prems(3) by simp
    then show ?thesis
      using Suc.IH [OF _ True Suc.prems(3)] Suc.prems(1) len by simp
  next
    case False
    then have "j = n" using Suc.prems(2) by simp
    then show ?thesis using len by simp
  qed
qed

lemma concat_singletons: "concat (map (\<lambda>i. [g i]) xs) = map g xs"
  by (induction xs) auto

lemma block_in_range:
  assumes "i < (s::nat)" and "k < l"
  shows "(i * l + k) * p + p \<le> s * l * p"
proof -
  have "i * l + k + 1 \<le> Suc i * l" using assms(2) by simp
  also have "\<dots> \<le> s * l" using assms(1) by (intro mult_le_mono1) simp
  finally have "(i * l + k + 1) * p \<le> s * l * p" by (rule mult_le_mono1)
  then show ?thesis by (simp add: algebra_simps)
qed

lemma layer_components_array3:
  assumes "array3 a s l p" and "k < l"
  shows "layer_components a k = Inr (map (\<lambda>j. species_series a k j) [0..<p])"
proof -
  obtain d where a: "a = NDArray [s, l, p] d" and len: "length d = s * l * p"
    using assms(1) by (cases a) (simp add: array3_def)
  define blk where "blk = (\<lambda>i. take p (drop ((i * l + k) * p) d))"
  have blk_len: "length (blk i) = p" if "i < s" for i
    using block_in_range [OF that assms(2), of p] len by (simp add: blk_def)
  have blk_nth: "blk i ! j = d ! ((i * l + k) * p + j)" if "i < s" "j < p" for i j
  proof -
    have "(i * l + k) * p \<le> length d"
      using block_in_range [OF that(1) assms(2), of p] unfolding len by linarith
    then show ?thesis using that(2) by (simp add: blk_def)
  qed
  define d1 where "d1 = concat (map blk [0..<s])"
  have col: "getitem_col a k = Inr (NDArray [s, p] d1)"
    using assms(2) by (simp add: getitem_col_def a d1_def blk_def)
  define ser where "ser = (\<lambda>j. map (\<lambda>i. d ! ((i * l + k) * p + j)) [0..<s])"
  have one: "take (Suc 0) (drop (i * p + j) d1) = [d ! ((i * l + k) * p + j)]" if "i < s" "j < p" for i j
  proof -
    have "take (Suc 0) (drop (i * p + j) d1) = take (Suc 0) (drop j (blk i))"
      unfolding d1_def using that by (intro take_drop_concat_blocks) (simp_all add: blk_len)
    also have "\<dots> = [blk i ! j]"
      using that blk_len [OF that(1)] by (simp add: take_Suc_conv_app_nth)
    finally show ?thesis using that by (simp add: blk_nth)
  qed
  have inner: "concat (map (\<lambda>i. take (Suc 0) (drop (i * p + j) d1)) [0..<s]) = ser j" if "j < p" for j
  proof -
    have "map (\<lambda>i. take (Suc 0) (drop (i * p + j) d1)) [0..<s] = map (\<lambda>i. [d ! ((i * l + k) * p + j)]) [0..<s]"
      using that by (intro map_cong) (simp_all add: one)
    then show ?thesis by (simp only: concat_singletons ser_def)
  qed
  define d2 where "d2 = concat (map ser [0..<p])"
  have "concat (map (\<lambda>j. concat (map (\<lambda>i. take (Suc 0) (drop (i * p + j) d1)) [0..<s])) [0..<p]) = d2"
  proof -
    have "map (\<lambda>j. concat (map (\<lambda>i. take (Suc 0) (drop (i * p + j) d1)) [0..<s])) [0..<p] = map ser [0..<p]"
      by (intro map_cong) (simp_all add: inner)
    then show ?thesis by (simp only: d2_def)
  qed
  then have sw: "swapaxes01 (NDArray [s, p] d1) = Inr (NDArray [p, s] d2)"
    by (simp add: swapaxes01_def)
  have item: "take s (drop (j * s) d2) = ser j" if "j < p" for j
  proof -
    have "take s (drop (j * s + 0) d2) = take s (drop 0 (ser j))"
      unfolding d2_def using that by (intro take_drop_concat_blocks) (simp_all add: ser_def)
    then show ?thesis by (simp add: ser_def)
  qed
  have "map (\<lambda>j. NDArray [s] (take s (drop (j * s) d2))) [0..<p] = map (\<lambda>j. species_series a k j) [0..<p]"
    by (intro map_cong) (simp_all add: item species_series_def element_at_def a ser_def)
  then have "iter_first_axis (NDArray [p, s] d2) = Inr (map (\<lambda>j. species_series a k j) [0..<p])"
    unfolding iter_first_axis_def by simp
  then show ?thesis
    by (simp add: layer_components_def col sw)
qed

section \<open>The loop over \<^verbatim>\<open>zip\<close>\<close>



lemma fan_out_other:
  "name \<notin> set (take (length comps) names) \<Longrightarrow> fan_out names comps self name = self name"
proof (induction names arbitrary: comps self)
  case Nil
  then show ?case by simp
next
  case (Cons n names)
  note IH = Cons.IH and prems = Cons.prems
  show ?case
  proof (cases comps)
    case Nil
    then show ?thesis by simp
  next
    case (Cons c cs)
    have ne: "name \<noteq> n" and rest: "name \<notin> set (take (length cs) names)"
      using prems by (simp_all add: Cons)
    have "fan_out (n # names) (c # cs) self name = fan_out names cs (self(n \<mapsto> c)) name"
      by simp
    also have "\<dots> = (self(n \<mapsto> c)) name"
      using rest by (rule IH)
    also have "\<dots> = self name"
      using ne by simp
    finally show ?thesis unfolding Cons .
  qed
qed

lemma fan_out_distinct:
  "distinct names \<Longrightarrow> length names = length comps \<Longrightarrow>
   map (fan_out names comps self) names = map Some comps"
proof (induction names arbitrary: comps self)
  case Nil
  then show ?case by simp
next
  case (Cons name names)
  then obtain component cs where comps: "comps = component # cs"
    by (cases comps) simp_all
  have "name \<notin> set (take (length cs) names)"
    using Cons.prems(1) by (auto dest: in_set_takeD)
  then have "fan_out names cs (self(name \<mapsto> component)) name = Some component"
    by (simp add: fan_out_other)
  moreover have "map (fan_out names cs (self(name \<mapsto> component))) names = map Some cs"
    using Cons.prems comps by (intro Cons.IH) simp_all
  ultimately show ?case by (simp add: comps)
qed

section \<open>The views\<close>

lemma layer_components_length:
  assumes "shape a = s0 # s1 # s2 # rest" and "k < s1"
  shows "\<exists>cs. layer_components a k = Inr cs \<and> length cs = s2"
  using assms
  by (simp add: layer_components_def getitem_col_def swapaxes01_def iter_first_axis_def)

lemma build_view_components:
  assumes "super name = Some (Array a)" and "shape a = s0 # s1 # s2 # rest" and "2 \<le> s1"
  obtains ecs mcs where "layer_components a 0 = Inr ecs" and "layer_components a 1 = Inr mcs"
    and "length ecs = s2" and "length mcs = s2"
    and "\<And>es ms. build_view es ms super name = Inr (fan_out ms mcs (fan_out es ecs Map.empty))"
proof -
  obtain ecs where e: "layer_components a 0 = Inr ecs" "length ecs = s2"
    using layer_components_length [OF assms(2), of 0] assms(3) by auto
  obtain mcs where m: "layer_components a 1 = Inr mcs" "length mcs = s2"
    using layer_components_length [OF assms(2), of 1] assms(3) by auto
  have "build_view es ms super name = Inr (fan_out ms mcs (fan_out es ecs Map.empty))" for es ms
    using e m assms(1) by (simp add: build_view_def getattr_array_def)
  then show ?thesis using e m by (intro that) simp_all
qed

lemma build_view_array3:
  assumes "super name = Some (Array a)" and "array3 a steps layers species" and "2 \<le> layers"
  shows "build_view element_array molecule_array super name =
           Inr (fan_out molecule_array (map (\<lambda>j. species_series a 1 j) [0..<species])
                 (fan_out element_array (map (\<lambda>j. species_series a 0 j) [0..<species]) Map.empty))"
proof -
  have layers: "0 < layers" "1 < layers"
    using assms(3) by simp_all
  have "layer_components a 0 = Inr (map (\<lambda>j. species_series a 0 j) [0..<species])"
    using assms(2) layers(1) by (rule layer_components_array3)
  moreover have "layer_components a 1 = Inr (map (\<lambda>j. species_series a 1 j) [0..<species])"
    using assms(2) layers(2) by (rule layer_components_array3)
  ultimately show ?thesis
    using assms(1) by (simp add: build_view_def getattr_array_def)
qed



text \<open>
  C3. The round trip fails on the code when a name is both an element and a molecule: the
  element loop (line 114) and the molecule loop (line 119) set attributes of the same
  object, so the molecule's series replaces the element's. With one step, elements
  \<open>C\<close> and \<open>O\<close>, molecules \<open>C\<close> and \<open>CO\<close>, layer 0 equal to \<open>[1, 2]\<close> and layer 1
  equal to \<open>[3, 4]\<close> (name lists as long as the species axis), the view maps \<open>C\<close> to
  \<open>[3]\<close>, while the series of the first element is \<open>[1]\<close>.
\<close>

theorem view_shared_name_overwritten:
  "Planet_atmo [''C'', ''O''] [''C'', ''CO''] [''comp_a'' \<mapsto> Array (NDArray [1, 2, 2] [1, 2, 3, 4 :: real])] =
     Inr [''C'' \<mapsto> NDArray [1] [1], ''O'' \<mapsto> NDArray [1] [2], ''C'' \<mapsto> NDArray [1] [3], ''CO'' \<mapsto> NDArray [1] [4]] \<and>
   array3 (NDArray [1, 2, 2] [1, 2, 3, 4 :: real]) 1 2 2 \<and>
   length [''C'', ''O''] = 2 \<and> length [''C'', ''CO''] = 2 \<and>
   [''C'' \<mapsto> NDArray [1] [1], ''O'' \<mapsto> NDArray [1] [2], ''C'' \<mapsto> NDArray [1] [3], ''CO'' \<mapsto> NDArray [1] [4 :: real]] ''C''
     = Some (NDArray [1] [3]) \<and>
   species_series (NDArray [1, 2, 2] [1, 2, 3, 4 :: real]) 0 0 = NDArray [1] [1]"
proof -
  have up: "[0..<2] = [0, 1]"
    by (simp add: upt_rec)
  show ?thesis
    by (simp add: Planet_atmo_def build_view_def getattr_array_def layer_components_def
        getitem_col_def swapaxes01_def iter_first_axis_def species_series_def element_at_def
        array3_def up)
qed

text \<open>
  Where no name is shared the views do reconstruct the array. For a well-formed
  three-dimensional composition array with at least two layers and name lists as long as
  the species axis: when the molecule names are pairwise distinct, reading the view at the
  molecule names in list order gives the series of layer 1 in species order; when the
  element names are pairwise distinct and none of them is also a molecule name, reading
  the view at the element names gives the series of layer 0 in species order.
\<close>

lemma view_round_trip_distinct:
  assumes "super ''comp_a'' = Some (Array a)" and "array3 a steps layers species" and "2 \<le> layers"
    and "length element_array = species" and "length molecule_array = species"
  shows "\<exists>view. Planet_atmo element_array molecule_array super = Inr view \<and>
           (distinct molecule_array \<longrightarrow>
              map view molecule_array = map (\<lambda>j. Some (species_series a 1 j)) [0..<species]) \<and>
           (distinct element_array \<and> set element_array \<inter> set molecule_array = {} \<longrightarrow>
              map view element_array = map (\<lambda>j. Some (species_series a 0 j)) [0..<species])"
proof -
  define ecs where "ecs = map (\<lambda>j. species_series a 0 j) [0..<species]"
  define mcs where "mcs = map (\<lambda>j. species_series a 1 j) [0..<species]"
  define elems where "elems = fan_out element_array ecs Map.empty"
  define view where "view = fan_out molecule_array mcs elems"
  have len: "length ecs = species" "length mcs = species"
    by (simp_all add: ecs_def mcs_def)
  have built: "Planet_atmo element_array molecule_array super = Inr view"
    unfolding Planet_atmo_def view_def elems_def ecs_def mcs_def
    using assms(1,2,3) by (rule build_view_array3)
  have mols: "map view molecule_array = map Some mcs" if "distinct molecule_array"
    unfolding view_def using that assms(5) len by (intro fan_out_distinct) simp_all
  have els: "map view element_array = map Some ecs"
    if d: "distinct element_array" and disj: "set element_array \<inter> set molecule_array = {}"
  proof -
    have "view e = elems e" if "e \<in> set element_array" for e
    proof -
      have "e \<notin> set (take (length mcs) molecule_array)"
        using that disj by (auto dest: in_set_takeD)
      then show ?thesis unfolding view_def by (rule fan_out_other)
    qed
    then have "map view element_array = map elems element_array"
      by (intro map_cong) simp_all
    also have "\<dots> = map Some ecs"
      unfolding elems_def using d assms(4) len by (intro fan_out_distinct) simp_all
    finally show ?thesis .
  qed
  show ?thesis
    using built mols els by (auto simp: ecs_def mcs_def comp_def)
qed

text \<open>
  Three steps, elements \<open>Fe\<close> and \<open>Si\<close>, layer 0 equal to \<open>[[1,2],[3,4],[5,6]]\<close>: the
  atmosphere view maps \<open>Fe\<close> to \<open>[1,3,5]\<close> and \<open>Si\<close> to \<open>[2,4,6]\<close>.
\<close>

lemma view_round_trip_example:
  "\<exists>view. Planet_atmo [''Fe'', ''Si''] [''H2O'', ''CO'']
            [''comp_a'' \<mapsto> Array (NDArray [3, 2, 2] [1, 2, 7, 8, 3, 4, 9, 10, 5, 6, 11, 12 :: real])] = Inr view \<and>
          view ''Fe'' = Some (NDArray [3] [1, 3, 5]) \<and>
          view ''Si'' = Some (NDArray [3] [2, 4, 6]) \<and>
          view ''H2O'' = Some (NDArray [3] [7, 9, 11]) \<and>
          view ''CO'' = Some (NDArray [3] [8, 10, 12])"
proof -
  let ?a = "NDArray [3, 2, 2] [1, 2, 7, 8, 3, 4, 9, 10, 5, 6, 11, 12 :: real]"
  have up: "[0..<2] = [0, 1]" "[0..<3] = [0, 1, 2]"
    by (simp_all add: upt_rec)
  have "species_series ?a 0 0 = NDArray [3] [1, 3, 5]" "species_series ?a 0 1 = NDArray [3] [2, 4, 6]"
       "species_series ?a 1 0 = NDArray [3] [7, 9, 11]" "species_series ?a 1 1 = NDArray [3] [8, 10, 12]"
    by (simp_all add: species_series_def element_at_def up)
  then show ?thesis
    using view_round_trip_distinct [of "[''comp_a'' \<mapsto> Array ?a]" ?a 3 2 2 "[''Fe'', ''Si'']" "[''H2O'', ''CO'']"]
    by (simp add: array3_def up) blast
qed

section \<open>Loading the file\<close>

lemma public_names_Inr:
  "[] \<notin> set qs \<Longrightarrow> public_names qs = Inr [q\<leftarrow>qs. take 1 q \<noteq> ''_'']"
proof (induction qs)
  case Nil
  then show ?case by simp
next
  case (Cons q qs)
  then obtain c cs where q: "q = c # cs" by (cases q) auto
  show ?case using Cons by (simp add: q)
qed

lemma public_names_Inl:
  "[] \<in> set qs \<Longrightarrow> public_names qs = Inl IndexError"
proof (induction qs)
  case Nil
  then show ?case by simp
next
  case (Cons q qs)
  show ?case
  proof (cases q)
    case Nil
    then show ?thesis by simp
  next
    case (Cons c cs)
    then have "[] \<in> set qs" using Cons.prems by simp
    then have "public_names qs = Inl IndexError" by (rule Cons.IH)
    then show ?thesis by (simp add: Cons)
  qed
qed

lemma read_leaf_node:
  "f ''/planet'' = Some node \<Longrightarrow>
   read_leaf f k = (case children node k of None \<Rightarrow> Inl NoSuchNodeError | Some a \<Rightarrow> Inr a)"
  by (simp add: read_leaf_def)

lemma load_fields_frame:
  "load_fields f flds self = (r, self') \<Longrightarrow> k \<notin> fst ` set flds \<Longrightarrow> self' k = self k"
proof (induction flds arbitrary: self)
  case Nil
  then show ?case by simp
next
  case (Cons field flds)
  obtain k0 c0 where field: "field = (k0, c0)" by (cases field)
  have ne: "k \<noteq> k0" and rest: "k \<notin> fst ` set flds"
    using Cons.prems(2) by (simp_all add: field)
  show ?case
  proof (cases "read_leaf f k0")
    case (Inl e)
    then show ?thesis using Cons.prems(1) by (simp add: field)
  next
    case (Inr a)
    then have "load_fields f flds (self(k0 \<mapsto> Array (convert c0 a))) = (r, self')"
      using Cons.prems(1) by (simp add: field)
    then have "self' k = (self(k0 \<mapsto> Array (convert c0 a))) k"
      using rest by (rule Cons.IH)
    then show ?thesis using ne by simp
  qed
qed

lemma load_fields_error:
  "load_fields f flds self = (Some e, self') \<Longrightarrow> e = NoSuchNodeError"
proof (induction flds arbitrary: self)
  case Nil
  then show ?case by simp
next
  case (Cons field flds)
  obtain k0 c0 where field: "field = (k0, c0)" by (cases field)
  show ?case
  proof (cases "read_leaf f k0")
    case (Inl e0)
    then have "e0 = NoSuchNodeError"
      by (auto simp: read_leaf_def split: option.splits)
    then show ?thesis using Cons.prems Inl by (simp add: field)
  next
    case (Inr a)
    then have "load_fields f flds (self(k0 \<mapsto> Array (convert c0 a))) = (Some e, self')"
      using Cons.prems by (simp add: field)
    then show ?thesis by (rule Cons.IH)
  qed
qed

lemma load_fields_value:
  assumes "f ''/planet'' = Some node"
  shows "load_fields f flds self = (None, self') \<Longrightarrow> distinct (map fst flds) \<Longrightarrow>
         (k, c) \<in> set flds \<Longrightarrow>
         \<exists>a. children node k = Some a \<and> self' k = Some (Array (convert c a))"
proof (induction flds arbitrary: self)
  case Nil
  then show ?case by simp
next
  case (Cons field flds)
  obtain k0 c0 where field: "field = (k0, c0)" by (cases field)
  obtain a where a: "children node k0 = Some a"
    and run: "load_fields f flds (self(k0 \<mapsto> Array (convert c0 a))) = (None, self')"
    using Cons.prems(1) assms
    by (cases "children node k0") (simp_all add: field read_leaf_node)
  have d: "distinct (map fst flds)" and fresh: "k0 \<notin> fst ` set flds"
    using Cons.prems(2) by (simp_all add: field)
  show ?case
  proof (cases "(k, c) = (k0, c0)")
    case True
    have "self' k0 = (self(k0 \<mapsto> Array (convert c0 a))) k0"
      using run fresh by (rule load_fields_frame)
    then show ?thesis using True a by simp
  next
    case False
    then have "(k, c) \<in> set flds" using Cons.prems(3) by (auto simp: field)
    with run d show ?thesis by (rule Cons.IH)
  qed
qed

lemma load_fields_ok:
  assumes "f ''/planet'' = Some node"
  shows "\<forall>k\<in>fst ` set flds. children node k \<noteq> None \<Longrightarrow>
         \<exists>self'. load_fields f flds self = (None, self')"
proof (induction flds arbitrary: self)
  case Nil
  then show ?case by simp
next
  case (Cons field flds)
  obtain k0 c0 where field: "field = (k0, c0)" by (cases field)
  obtain a where a: "children node k0 = Some a"
    using Cons.prems by (auto simp: field)
  have "\<forall>k\<in>fst ` set flds. children node k \<noteq> None"
    using Cons.prems by simp
  then have "\<exists>self'. load_fields f flds (self(k0 \<mapsto> Array (convert c0 a))) = (None, self')"
    by (rule Cons.IH)
  then show ?case using a assms by (simp add: field read_leaf_node)
qed

lemma load_fields_missing:
  assumes "f ''/planet'' = Some node"
  shows "k \<in> fst ` set flds \<Longrightarrow> children node k = None \<Longrightarrow>
         \<exists>self'. load_fields f flds self = (Some NoSuchNodeError, self')"
proof (induction flds arbitrary: self)
  case Nil
  then show ?case by simp
next
  case (Cons field flds)
  obtain k0 c0 where field: "field = (k0, c0)" by (cases field)
  show ?case
  proof (cases "children node k0")
    case None
    then show ?thesis using assms by (simp add: field read_leaf_node)
  next
    case (Some a)
    then have "k \<noteq> k0" using Cons.prems(2) by auto
    then have "k \<in> fst ` set flds" using Cons.prems(1) by (simp add: field)
    then have "\<exists>self'. load_fields f flds (self(k0 \<mapsto> Array (convert c0 a))) = (Some NoSuchNodeError, self')"
      using Cons.prems(2) by (rule Cons.IH)
    then show ?thesis using Some assms by (simp add: field read_leaf_node)
  qed
qed

lemma distinct_planet_fields: "distinct (map fst planet_fields)"
  by (simp add: planet_fields_def)

lemma planet_field_names_table: "map fst planet_fields = planet_field_names"
  by (simp add: planet_field_names_def planet_fields_def)

lemma planet_field_names_eq: "set planet_field_names = fst ` set planet_fields"
  using planet_field_names_table by (metis set_map)

lemma np_array_rows: "has_rows a \<Longrightarrow> np_array a = a"
  by (auto simp: has_rows_def np_array_def split: list.splits)

lemma disc_quantities_not_field: "''disc_quantities'' \<notin> fst ` set planet_fields"
  by (simp add: planet_fields_def)


lemma rescaled_fields: "(''a_p'', Per_AU) \<in> set planet_fields" "(''t'', Per_Myr) \<in> set planet_fields"
  by (simp_all add: planet_fields_def)

lemma load_planet_opened:
  "fs file_path = Some f \<Longrightarrow> fst (load_planet fs file_path self s) = load_body f self"
  by (simp add: load_planet_def Let_def)

lemma load_planet_not_opened:
  "fs file_path = None \<Longrightarrow> fst (load_planet fs file_path self s) = (Some IOError, self)"
  by (simp add: load_planet_def)

lemma load_body_listed:
  assumes "f ''/planet'' = Some node" and "[] \<notin> set (listing node)"
  shows "load_body f self =
           load_fields f planet_fields
             (self(''disc_quantities'' \<mapsto> PyList [q\<leftarrow>listing node. take 1 q \<noteq> ''_'']))"
  using assms by (simp add: load_body_def public_names_Inr)

lemma valid_fileD:
  assumes "valid_file f"
  obtains node where "f ''/planet'' = Some node" and "[] \<notin> set (listing node)"
    and "\<forall>k\<in>fst ` set planet_fields. children node k \<noteq> None"
  using assms
  by (auto simp: valid_file_def planet_field_names_eq list_all_iff split: option.splits)

lemma load_body_valid:
  assumes "valid_file f"
  shows "\<exists>self'. load_body f self = (None, self')"
proof -
  obtain node where n: "f ''/planet'' = Some node" "[] \<notin> set (listing node)"
    "\<forall>k\<in>fst ` set planet_fields. children node k \<noteq> None"
    using assms by (rule valid_fileD)
  show ?thesis
    unfolding load_body_listed [of f node, OF n(1,2)] using n(1,3) by (rule load_fields_ok)
qed

lemma load_body_success:
  assumes "load_body f self = (None, self')"
  obtains node where "f ''/planet'' = Some node" and "[] \<notin> set (listing node)"
    and "load_fields f planet_fields
           (self(''disc_quantities'' \<mapsto> PyList [q\<leftarrow>listing node. take 1 q \<noteq> ''_''])) = (None, self')"
proof -
  obtain node where n: "f ''/planet'' = Some node"
    using assms by (cases "f ''/planet''") (simp_all add: load_body_def)
  have ne: "[] \<notin> set (listing node)"
  proof
    assume "[] \<in> set (listing node)"
    then have "public_names (listing node) = Inl IndexError" by (rule public_names_Inl)
    then show False using assms n by (simp add: load_body_def)
  qed
  show ?thesis
    using n ne assms that by (simp add: load_body_listed)
qed

section \<open>Merging the configuration\<close>

lemma assign_options_frame:
  "assign_options pyeval kvs self = (r, self') \<Longrightarrow> k \<notin> fst ` set kvs \<Longrightarrow> self' k = self k"
proof (induction kvs arbitrary: self)
  case Nil
  then show ?case by simp
next
  case (Cons kv kvs)
  obtain k0 v0 where kv: "kv = (k0, v0)" by (cases kv)
  have ne: "k \<noteq> k0" and rest: "k \<notin> fst ` set kvs"
    using Cons.prems(2) by (simp_all add: kv)
  show ?case
  proof (cases "eval_kwargs pyeval v0")
    case (Inl e)
    then show ?thesis using Cons.prems(1) by (simp add: kv)
  next
    case (Inr x)
    then have "assign_options pyeval kvs (self(k0 \<mapsto> x)) = (r, self')"
      using Cons.prems(1) by (simp add: kv)
    then have "self' k = (self(k0 \<mapsto> x)) k"
      using rest by (rule Cons.IH)
    then show ?thesis using ne by simp
  qed
qed

lemma assign_options_value:
  "assign_options pyeval kvs self = (None, self') \<Longrightarrow> distinct (map fst kvs) \<Longrightarrow>
   (k, v) \<in> set kvs \<Longrightarrow> \<exists>x. eval_kwargs pyeval v = Inr x \<and> self' k = Some x"
proof (induction kvs arbitrary: self)
  case Nil
  then show ?case by simp
next
  case (Cons kv kvs)
  obtain k0 v0 where kv: "kv = (k0, v0)" by (cases kv)
  obtain x0 where x0: "eval_kwargs pyeval v0 = Inr x0"
    and run: "assign_options pyeval kvs (self(k0 \<mapsto> x0)) = (None, self')"
    using Cons.prems(1) by (cases "eval_kwargs pyeval v0") (simp_all add: kv)
  have d: "distinct (map fst kvs)" and fresh: "k0 \<notin> fst ` set kvs"
    using Cons.prems(2) by (simp_all add: kv)
  show ?case
  proof (cases "(k, v) = (k0, v0)")
    case True
    have "self' k0 = (self(k0 \<mapsto> x0)) k0"
      using run fresh by (rule assign_options_frame)
    then show ?thesis using True x0 by simp
  next
    case False
    then have "(k, v) \<in> set kvs" using Cons.prems(3) by (auto simp: kv)
    with run d show ?thesis by (rule Cons.IH)
  qed
qed

lemma assign_options_ok:
  "\<forall>kv\<in>set kvs. \<exists>x. eval_kwargs pyeval (snd kv) = Inr x \<Longrightarrow>
   \<exists>self'. assign_options pyeval kvs self = (None, self')"
proof (induction kvs arbitrary: self)
  case Nil
  then show ?case by simp
next
  case (Cons kv kvs)
  obtain k0 v0 where kv: "kv = (k0, v0)" by (cases kv)
  obtain x0 where x0: "eval_kwargs pyeval v0 = Inr x0"
    using Cons.prems by (auto simp: kv)
  have "\<forall>kv\<in>set kvs. \<exists>x. eval_kwargs pyeval (snd kv) = Inr x"
    using Cons.prems by simp
  then have "\<exists>self'. assign_options pyeval kvs (self(k0 \<mapsto> x0)) = (None, self')"
    by (rule Cons.IH)
  then show ?case using x0 by (simp add: kv)
qed

lemma config_options_names: "map fst (config_options a b) = config_fields"
  by (simp add: config_options_def config_fields_def)

lemma distinct_config_fields: "distinct config_fields"
  by (simp add: config_fields_def)

lemma config_options_own_section:
  "k \<in> set config_fields \<Longrightarrow>
   (k, get_section config (own_section k) k) \<in>
     set (config_options (get_section config ''config_planet'')
            (get_section config ''config_planetesimal_accretion''))"
  by (auto simp: config_fields_def config_options_def own_section_def)

lemma merge_unfold:
  "import_config config_file_path = Inr config \<Longrightarrow>
   load_parameters_from_config import_config pyeval config_file_path self =
     assign_options pyeval
       (config_options (get_section config ''config_planet'')
          (get_section config ''config_planetesimal_accretion'')) self"
  by (simp add: load_parameters_from_config_def Let_def)

lemma merge_frame:
  assumes "load_parameters_from_config import_config pyeval config_file_path self = (r, self')"
    and "k \<notin> set config_fields"
  shows "self' k = self k"
proof (cases "import_config config_file_path")
  case (Inl e)
  then show ?thesis using assms(1) by (simp add: load_parameters_from_config_def)
next
  case (Inr config)
  have "k \<notin> fst ` set (config_options (get_section config ''config_planet'')
          (get_section config ''config_planetesimal_accretion''))"
    using assms(2) config_options_names [of "get_section config ''config_planet''"
        "get_section config ''config_planetesimal_accretion''"]
    by (metis set_map)
  with assms(1) show ?thesis
    unfolding merge_unfold [of import_config config_file_path config, OF Inr] by (rule assign_options_frame)
qed

lemma merge_value:
  assumes "load_parameters_from_config import_config pyeval config_file_path self = (None, self')"
    and "import_config config_file_path = Inr config"
    and "k \<in> set config_fields"
  shows "\<exists>x. eval_kwargs pyeval (get_section config (own_section k) k) = Inr x \<and> self' k = Some x"
proof -
  let ?opts = "config_options (get_section config ''config_planet'')
                 (get_section config ''config_planetesimal_accretion'')"
  have run: "assign_options pyeval ?opts self = (None, self')"
    using assms(1) by (simp add: merge_unfold [of import_config config_file_path config, OF assms(2)])
  have d: "distinct (map fst ?opts)"
    by (simp only: config_options_names distinct_config_fields)
  show ?thesis
    using run d config_options_own_section [OF assms(3)] by (rule assign_options_value)
qed

lemma merge_success_config:
  assumes "load_parameters_from_config import_config pyeval config_file_path self = (None, self')"
  obtains config where "import_config config_file_path = Inr config"
  using assms by (cases "import_config config_file_path") (simp_all add: load_parameters_from_config_def)

section \<open>Construction\<close>

lemma Planet_class_stages:
  assumes "fst (Planet_class fs import_config pyeval element_array molecule_array file_path config_file_path s) = Inr rec"
  obtains self1 self2 atmo core where
    "fst (load_planet fs file_path Map.empty s) = (None, self1)"
    and "load_parameters_from_config import_config pyeval config_file_path self1 = (None, self2)"
    and "Planet_atmo element_array molecule_array self2 = Inr atmo"
    and "Planet_core element_array molecule_array (self2(''atmo'' \<mapsto> Instance atmo)) = Inr core"
    and "rec = self2(''atmo'' \<mapsto> Instance atmo, ''core'' \<mapsto> Instance core)"
  using assms
  by (auto simp: Planet_class_def Let_def split: prod.splits option.splits sum.splits)

lemma Planet_class_load_fails:
  assumes "fst (load_planet fs file_path Map.empty s) = (Some e, self1)"
  shows "fst (Planet_class fs import_config pyeval element_array molecule_array file_path config_file_path s) = Inl e"
  using assms by (auto simp: Planet_class_def split: prod.splits option.splits)

lemma loaded_a_p:
  assumes "fst (load_planet fs file_path self s) = (None, self1)"
  shows "\<exists>f node raw. fs file_path = Some f \<and> f ''/planet'' = Some node \<and>
           children node ''a_p'' = Some raw \<and> self1 ''a_p'' = Some (Array (np_div (np_array raw) AU))"
proof -
  obtain f where f: "fs file_path = Some f"
    using assms by (cases "fs file_path") (simp_all add: load_planet_not_opened)
  then have "load_body f self = (None, self1)"
    using assms by (simp add: load_planet_opened)
  then obtain node where n: "f ''/planet'' = Some node"
    and flds: "load_fields f planet_fields
                 (self(''disc_quantities'' \<mapsto> PyList [q\<leftarrow>listing node. take 1 q \<noteq> ''_''])) = (None, self1)"
    by (rule load_body_success)
  have "\<exists>a. children node ''a_p'' = Some a \<and> self1 ''a_p'' = Some (Array (convert Per_AU a))"
    using n flds distinct_planet_fields rescaled_fields(1) by (rule load_fields_value)
  then show ?thesis using f n by auto
qed

lemma loaded_field:
  assumes "fst (load_planet fs file_path self s) = (None, self1)"
    and "fs file_path = Some f" and "f ''/planet'' = Some node" and "(k, c) \<in> set planet_fields"
  shows "\<exists>a. children node k = Some a \<and> self1 k = Some (Array (convert c a))"
proof -
  have "load_body f self = (None, self1)"
    using assms(1,2) by (simp add: load_planet_opened)
  then obtain node' where n: "f ''/planet'' = Some node'"
    and flds: "load_fields f planet_fields
                 (self(''disc_quantities'' \<mapsto> PyList [q\<leftarrow>listing node'. take 1 q \<noteq> ''_''])) = (None, self1)"
    by (rule load_body_success)
  show ?thesis
    using assms(3) flds distinct_planet_fields assms(4) by (rule load_fields_value)
qed

lemma comp_fields: "(''comp_a'', Verbatim) \<in> set planet_fields" "(''comp_c'', Verbatim) \<in> set planet_fields"
  by (simp_all add: planet_fields_def)

lemma comp_not_config: "''comp_a'' \<notin> set config_fields" "''comp_c'' \<notin> set config_fields"
  by (simp_all add: config_fields_def)

lemma Planet_class_succeeds:
  assumes "fs file_path = Some f" and "valid_file f" and "f ''/planet'' = Some node"
    and "children node ''comp_a'' = Some ca" and "shape ca = a0 # a1 # a2 # arest" and "2 \<le> a1"
    and "children node ''comp_c'' = Some cc" and "shape cc = c0 # c1 # c2 # crest" and "2 \<le> c1"
    and "0 < a0" and "0 < c0"
    and "import_config config_file_path = Inr config"
    and "\<forall>kv\<in>set (config_options (get_section config ''config_planet'')
            (get_section config ''config_planetesimal_accretion'')).
           \<exists>x. eval_kwargs pyeval (snd kv) = Inr x"
  shows "\<exists>rec. fst (Planet_class fs import_config pyeval element_array molecule_array file_path config_file_path s) = Inr rec"
proof -
  obtain self1 where l: "fst (load_planet fs file_path Map.empty s) = (None, self1)"
    using load_body_valid [OF assms(2)] assms(1) by (auto simp: load_planet_opened)
  have "has_rows ca" "has_rows cc"
    using assms(5,8,10,11) by (simp_all add: has_rows_def)
  then have same: "np_array ca = ca" "np_array cc = cc"
    by (simp_all add: np_array_rows)
  have ca1: "self1 ''comp_a'' = Some (Array ca)"
    using loaded_field [OF l assms(1,3) comp_fields(1)] assms(4) same by simp
  have cc1: "self1 ''comp_c'' = Some (Array cc)"
    using loaded_field [OF l assms(1,3) comp_fields(2)] assms(7) same by simp
  obtain self2 where m: "load_parameters_from_config import_config pyeval config_file_path self1 = (None, self2)"
    using assign_options_ok [OF assms(13)]
    by (auto simp: merge_unfold [of import_config config_file_path config, OF assms(12)])
  have ca2: "self2 ''comp_a'' = Some (Array ca)"
    using merge_frame [OF m comp_not_config(1)] ca1 by simp
  have cc2: "self2 ''comp_c'' = Some (Array cc)"
    using merge_frame [OF m comp_not_config(2)] cc1 by simp
  obtain atmo where a: "Planet_atmo element_array molecule_array self2 = Inr atmo"
    using build_view_components [of self2 "''comp_a''", OF ca2 assms(5,6)]
    unfolding Planet_atmo_def by metis
  let ?self3 = "self2(''atmo'' \<mapsto> Instance atmo)"
  have cc3: "?self3 ''comp_c'' = Some (Array cc)"
    using cc2 by simp
  obtain core where c: "Planet_core element_array molecule_array ?self3 = Inr core"
    using build_view_components [of ?self3 "''comp_c''", OF cc3 assms(8,9)]
    unfolding Planet_core_def by metis
  obtain s1 where "load_planet fs file_path Map.empty s = ((None, self1), s1)"
    using l by (cases "load_planet fs file_path Map.empty s") simp
  then show ?thesis
    using m a c by (simp add: Planet_class_def)
qed

section \<open>The example inputs\<close>

lemma example_planet: "example_file ''/planet'' = Some example_node"
  by (simp add: example_file_def)

lemma example_opens: "example_fs ''simulation.h5'' = Some example_file"
  by (simp add: example_fs_def)

lemma example_valid: "valid_file example_file"
  by (simp add: valid_file_def example_file_def example_node_def planet_field_names_def
      planet_fields_def)

lemma example_config_evaluates:
  "path = ''config.yaml'' \<or> path = ''empty.yaml'' \<or> path = ''mixed.yaml'' \<Longrightarrow>
   \<exists>config. example_config path = Inr config \<and>
     (\<forall>kv\<in>set (config_options (get_section config ''config_planet'')
            (get_section config ''config_planetesimal_accretion'')).
           \<exists>x. eval_kwargs literal_eval (snd kv) = Inr x)"
  by (auto simp: example_config_def config_options_def get_section_def eval_kwargs_def
      literal_eval_def parse_number_def digit_of_def)

lemma example_constructs:
  assumes "path = ''config.yaml'' \<or> path = ''empty.yaml'' \<or> path = ''mixed.yaml''"
  shows "\<exists>rec. fst (Planet_class example_fs example_config literal_eval [''Fe''] [''H2O'']
                 ''simulation.h5'' path example_io) = Inr rec"
proof -
  obtain config where c: "example_config path = Inr config"
    and e: "\<forall>kv\<in>set (config_options (get_section config ''config_planet'')
            (get_section config ''config_planetesimal_accretion'')).
           \<exists>x :: real pyval. eval_kwargs literal_eval (snd kv) = Inr x"
    using example_config_evaluates [OF assms] by blast
  have ca: "children example_node ''comp_a'' = Some (NDArray [1, 2, 1] [1, 2])"
    and cc: "children example_node ''comp_c'' = Some (NDArray [1, 2, 1] [1, 2])"
    by (simp_all add: example_node_def planet_field_names_def planet_fields_def)
  show ?thesis
    by (rule Planet_class_succeeds [of example_fs "''simulation.h5''" example_file example_node
          "NDArray [1, 2, 1] [1, 2]" 1 2 1 "[]" "NDArray [1, 2, 1] [1, 2]" 1 2 1 "[]"
          example_config path config literal_eval,
          OF example_opens example_valid example_planet ca _ _ cc _ _ _ _ c e])
      simp_all
qed

section \<open>The loader\<close>




text \<open>
  C10. Every load that returns normally has set the attribute \<open>disc_quantities\<close> to the
  names that \<^verbatim>\<open>dir\<close> lists for the group \<^verbatim>\<open>/planet\<close> and that do not begin with an
  underscore, in the listed order. It is set before any other attribute: whatever the
  outcome of the load, if any attribute of the object differs from before, then
  \<open>disc_quantities\<close> holds that list. The name is neither one of the fields read from
  the file nor one of the thirteen configuration fields.
\<close>

theorem load_planet_disc_quantities:
  assumes "fst (load_planet fs file_path self s) = (r, self')"
  shows "(r = None \<longrightarrow>
            (\<exists>f node. fs file_path = Some f \<and> f ''/planet'' = Some node \<and>
               self' ''disc_quantities'' = Some (PyList [q\<leftarrow>listing node. take 1 q \<noteq> ''_'']))) \<and>
         (\<forall>k. self' k \<noteq> self k \<longrightarrow>
            (\<exists>f node. fs file_path = Some f \<and> f ''/planet'' = Some node \<and>
               self' ''disc_quantities'' = Some (PyList [q\<leftarrow>listing node. take 1 q \<noteq> ''_'']))) \<and>
         ''disc_quantities'' \<notin> set planet_field_names \<and> ''disc_quantities'' \<notin> set config_fields"
proof -
  let ?goal = "\<exists>f node. fs file_path = Some f \<and> f ''/planet'' = Some node \<and>
               self' ''disc_quantities'' = Some (PyList [q\<leftarrow>listing node. take 1 q \<noteq> ''_''])"
  have changed: ?goal if "r = None \<or> (\<exists>k. self' k \<noteq> self k)"
  proof (cases "fs file_path")
    case None
    then show ?thesis using assms that by (auto simp: load_planet_not_opened)
  next
    case (Some f)
    then have body: "load_body f self = (r, self')"
      using assms by (simp add: load_planet_opened)
    show ?thesis
    proof (cases "f ''/planet''")
      case None
      then show ?thesis using body that by (auto simp: load_body_def)
    next
      case node: (Some node)
      show ?thesis
      proof (cases "[] \<in> set (listing node)")
        case True
        then have "public_names (listing node) = Inl IndexError" by (rule public_names_Inl)
        then show ?thesis using body node that by (auto simp: load_body_def)
      next
        case False
        let ?self1 = "self(''disc_quantities'' \<mapsto> PyList [q\<leftarrow>listing node. take 1 q \<noteq> ''_''])"
        have "load_fields f planet_fields ?self1 = (r, self')"
          using body load_body_listed [of f node, OF node False] by simp
        then have "self' ''disc_quantities'' = ?self1 ''disc_quantities''"
          using disc_quantities_not_field by (rule load_fields_frame)
        then show ?thesis using Some node by simp
      qed
    qed
  qed
  have "''disc_quantities'' \<notin> set planet_field_names"
    using disc_quantities_not_field by (simp add: planet_field_names_eq)
  moreover have "''disc_quantities'' \<notin> set config_fields"
    by (simp add: config_fields_def)
  ultimately show ?thesis using changed by blast
qed

theorem load_planet_disc_quantities_witness:
  "\<exists>self'. fst (load_planet example_fs ''simulation.h5'' Map.empty example_io) = (None, self') \<and>
     self' ''disc_quantities'' = Some (PyList planet_field_names)"
proof -
  obtain self' where run: "fst (load_planet example_fs ''simulation.h5'' Map.empty example_io) = (None, self')"
    using load_body_valid [OF example_valid, of Map.empty]
    by (auto simp: load_planet_opened [of example_fs "''simulation.h5''" example_file, OF example_opens])
  have "\<exists>f node. example_fs ''simulation.h5'' = Some f \<and> f ''/planet'' = Some node \<and>
          self' ''disc_quantities'' = Some (PyList [q\<leftarrow>listing node. take 1 q \<noteq> ''_''])"
    using load_planet_disc_quantities [OF run] by simp
  then have "self' ''disc_quantities'' =
               Some (PyList [q\<leftarrow>listing example_node. take 1 q \<noteq> ''_''])"
    by (auto simp: example_opens example_planet)
  moreover have "[q\<leftarrow>listing example_node. take 1 q \<noteq> ''_''] = planet_field_names"
    by (simp add: example_node_def planet_field_names_def planet_fields_def)
  ultimately show ?thesis using run by auto
qed

text \<open>
  C8. Whatever \<open>load_planet\<close> returns, an error included, the open handles after the
  call are the open handles before it, and the call adds to the history either nothing
  (the file could not be opened) or one open of the path followed by one close of it.
  The concrete run is a load that raises while reading a field.
\<close>

theorem load_planet_releases_handle:
  "handles (snd (load_planet fs file_path self s)) = handles s \<and>
   trace (snd (load_planet fs file_path self s)) =
     trace s @ (case fs file_path of None \<Rightarrow> [] | Some f \<Rightarrow> [Opened file_path, Closed file_path])"
  by (simp add: load_planet_def Let_def split: option.splits)

theorem load_planet_releases_handle_witness:
  "fst (fst (load_planet example_fs ''broken.h5'' Map.empty example_io)) = Some NoSuchNodeError \<and>
   handles (snd (load_planet example_fs ''broken.h5'' Map.empty example_io)) = [] \<and>
   trace (snd (load_planet example_fs ''broken.h5'' Map.empty example_io)) =
     [Opened ''broken.h5'', Closed ''broken.h5'']"
proof -
  let ?node = "example_node\<lparr>children := (children example_node)(''t'' := None)\<rparr>"
  have n: "broken_file ''/planet'' = Some ?node"
    by (simp add: broken_file_def)
  have l: "[] \<notin> set (listing ?node)"
    by (simp add: example_node_def planet_field_names_def planet_fields_def)
  have "''t'' \<in> fst ` set planet_fields" "children ?node ''t'' = None"
    by (simp_all add: planet_fields_def)
  then obtain self1 where
    "load_fields broken_file planet_fields
       (Map.empty(''disc_quantities'' \<mapsto> PyList [q\<leftarrow>listing ?node. take 1 q \<noteq> ''_''])) =
     (Some NoSuchNodeError, self1)"
    using load_fields_missing [of broken_file ?node, OF n] by blast
  moreover have "example_fs ''broken.h5'' = Some broken_file"
    by (simp add: example_fs_def)
  then have "fst (load_planet example_fs ''broken.h5'' Map.empty example_io) = load_body broken_file Map.empty"
    by (rule load_planet_opened)
  moreover note load_body_listed [of broken_file ?node Map.empty, OF n l]
  ultimately have "fst (load_planet example_fs ''broken.h5'' Map.empty example_io) = (Some NoSuchNodeError, self1)"
    by (simp only:)
  then show ?thesis
    using load_planet_releases_handle [of example_fs "''broken.h5''" Map.empty example_io]
    by (simp add: example_fs_def example_io_def)
qed

text \<open>
  C5. The constructor returns an error and no object when the file cannot be opened
  (IOError), when the file has no group \<^verbatim>\<open>/planet\<close> (NoSuchNodeError), and when the group
  lacks one of the fields (NoSuchNodeError); for any file that is not valid it returns
  some error, never an object.
\<close>

theorem failed_load_returns_no_record:
  "(fs file_path = None \<longrightarrow>
      fst (Planet_class fs import_config pyeval element_array molecule_array
             file_path config_file_path s) = Inl IOError) \<and>
   (\<forall>f. fs file_path = Some f \<and> f ''/planet'' = None \<longrightarrow>
      fst (Planet_class fs import_config pyeval element_array molecule_array
             file_path config_file_path s) = Inl NoSuchNodeError) \<and>
   (\<forall>f node k. fs file_path = Some f \<and> f ''/planet'' = Some node \<and> [] \<notin> set (listing node) \<and>
        k \<in> set planet_field_names \<and> children node k = None \<longrightarrow>
      fst (Planet_class fs import_config pyeval element_array molecule_array
             file_path config_file_path s) = Inl NoSuchNodeError) \<and>
   (\<forall>f. fs file_path = Some f \<and> \<not> valid_file f \<longrightarrow>
      (\<exists>e. fst (Planet_class fs import_config pyeval element_array molecule_array
                  file_path config_file_path s) = Inl e))"
proof -
  let ?P = "fst (Planet_class fs import_config pyeval element_array molecule_array
             file_path config_file_path s)"
  let ?L = "fst (load_planet fs file_path Map.empty s)"
  have fails: "?P = Inl e" if "?L = (Some e, self1)" for e self1
    using that by (rule Planet_class_load_fails)
  have a: "?P = Inl IOError" if "fs file_path = None"
    using that by (intro fails [of _ Map.empty]) (simp add: load_planet_not_opened)
  have b: "?P = Inl NoSuchNodeError" if "fs file_path = Some f" "f ''/planet'' = None" for f
    using that by (intro fails [of _ Map.empty]) (simp add: load_planet_opened load_body_def)
  have c: "?P = Inl NoSuchNodeError"
    if f: "fs file_path = Some f" and n: "f ''/planet'' = Some node" and l: "[] \<notin> set (listing node)"
      and k: "k \<in> set planet_field_names" and m: "children node k = None" for f node k
  proof -
    have "k \<in> fst ` set planet_fields"
      using k by (simp add: planet_field_names_eq)
    then obtain self1 where
      "load_fields f planet_fields
         (Map.empty(''disc_quantities'' \<mapsto> PyList [q\<leftarrow>listing node. take 1 q \<noteq> ''_''])) =
       (Some NoSuchNodeError, self1)"
      using load_fields_missing [of f node, OF n _ m] by blast
    then have "?L = (Some NoSuchNodeError, self1)"
      using f by (simp add: load_planet_opened load_body_listed [of f node, OF n l])
    then show ?thesis by (rule fails)
  qed
  have d: "\<exists>e. ?P = Inl e" if f: "fs file_path = Some f" and v: "\<not> valid_file f" for f
  proof (cases "?L")
    case (Pair r self1)
    show ?thesis
    proof (cases r)
      case None
      then have "load_body f Map.empty = (None, self1)"
        using Pair f by (simp add: load_planet_opened)
      then obtain node where n: "f ''/planet'' = Some node" and l: "[] \<notin> set (listing node)"
        and flds: "load_fields f planet_fields
           (Map.empty(''disc_quantities'' \<mapsto> PyList [q\<leftarrow>listing node. take 1 q \<noteq> ''_''])) = (None, self1)"
        by (rule load_body_success)
      have "children node k \<noteq> None" if field: "k \<in> fst ` set planet_fields" for k
      proof
        assume "children node k = None"
        then obtain self2 where
          "load_fields f planet_fields
             (Map.empty(''disc_quantities'' \<mapsto> PyList [q\<leftarrow>listing node. take 1 q \<noteq> ''_''])) =
           (Some NoSuchNodeError, self2)"
          using load_fields_missing [of f node, OF n field] by blast
        then show False using flds by simp
      qed
      then have "valid_file f"
        using n l by (simp add: valid_file_def planet_field_names_eq list_all_iff)
      then show ?thesis using v by simp
    next
      case (Some e)
      then have "?P = Inl e" using Pair by (intro fails) simp
      then show ?thesis by blast
    qed
  qed
  show ?thesis using a b c d by blast
qed

theorem failed_load_returns_no_record_witness:
  "fst (Planet_class example_fs example_config literal_eval [''Fe''] [''H2O'']
          ''missing.h5'' ''config.yaml'' example_io) = Inl IOError \<and>
   fst (Planet_class example_fs example_config literal_eval [''Fe''] [''H2O'']
          ''broken.h5'' ''config.yaml'' example_io) = Inl NoSuchNodeError"
proof -
  let ?node = "example_node\<lparr>children := (children example_node)(''t'' := None)\<rparr>"
  have "example_fs ''missing.h5'' = None"
    by (simp add: example_fs_def)
  then have a: "fst (Planet_class example_fs example_config literal_eval [''Fe''] [''H2O'']
          ''missing.h5'' ''config.yaml'' example_io) = Inl IOError"
    using failed_load_returns_no_record [of example_fs "''missing.h5''" example_config literal_eval
        "[''Fe'']" "[''H2O'']" "''config.yaml''" example_io]
    by simp
  have "example_fs ''broken.h5'' = Some broken_file \<and> broken_file ''/planet'' = Some ?node \<and>
        [] \<notin> set (listing ?node) \<and> ''t'' \<in> set planet_field_names \<and> children ?node ''t'' = None"
    by (simp add: example_fs_def broken_file_def example_node_def planet_field_names_def
        planet_fields_def)
  then have b: "fst (Planet_class example_fs example_config literal_eval [''Fe''] [''H2O'']
          ''broken.h5'' ''config.yaml'' example_io) = Inl NoSuchNodeError"
    using failed_load_returns_no_record [of example_fs "''broken.h5''" example_config literal_eval
        "[''Fe'']" "[''H2O'']" "''config.yaml''" example_io]
    by blast
  show ?thesis using a b by simp
qed

section \<open>The configuration merge\<close>

text \<open>
  C2. There are thirteen configuration fields, pairwise distinct. Whatever
  \<open>load_parameters_from_config\<close> returns, every attribute outside the thirteen is as
  before, and when it returns normally each of the thirteen is set. A constructed object
  had \<open>a_p\<close> loaded from the file and divided by \<open>AU\<close>, and holds in \<open>a_p\<close> the value
  evaluated from the option \<open>a_p\<close> of the planet section instead.
\<close>

theorem config_merge_overwrites_a_p:
  "length config_fields = 13 \<and> distinct config_fields \<and>
   (\<forall>r self'. load_parameters_from_config import_config pyeval config_file_path self = (r, self') \<longrightarrow>
      (\<forall>k. k \<notin> set config_fields \<longrightarrow> self' k = self k) \<and>
      (r = None \<longrightarrow> (\<forall>k\<in>set config_fields. self' k \<noteq> None))) \<and>
   (\<forall>rec. fst (Planet_class fs import_config pyeval element_array molecule_array
                  file_path config_file_path s) = Inr rec \<longrightarrow>
      (\<exists>self1 raw config x.
         fst (load_planet fs file_path Map.empty s) = (None, self1) \<and>
         self1 ''a_p'' = Some (Array (np_div raw AU)) \<and>
         import_config config_file_path = Inr config \<and>
         eval_kwargs pyeval (get_section config ''config_planet'' ''a_p'') = Inr x \<and>
         rec ''a_p'' = Some x))"
proof -
  have count: "length config_fields = 13"
    by (simp add: config_fields_def)
  have frame: "self' k = self k"
    if "load_parameters_from_config import_config pyeval config_file_path self = (r, self')"
      and "k \<notin> set config_fields" for r self' k
    using that by (rule merge_frame)
  have assigned: "self' k \<noteq> None"
    if run: "load_parameters_from_config import_config pyeval config_file_path self = (None, self')"
      and k: "k \<in> set config_fields" for self' k
  proof -
    obtain config where "import_config config_file_path = Inr config"
      using run by (rule merge_success_config)
    with run have "\<exists>x. eval_kwargs pyeval (get_section config (own_section k) k) = Inr x \<and> self' k = Some x"
      using k by (rule merge_value)
    then show ?thesis by auto
  qed
  have built: "\<exists>self1 raw config x.
         fst (load_planet fs file_path Map.empty s) = (None, self1) \<and>
         self1 ''a_p'' = Some (Array (np_div raw AU)) \<and>
         import_config config_file_path = Inr config \<and>
         eval_kwargs pyeval (get_section config ''config_planet'' ''a_p'') = Inr x \<and>
         rec ''a_p'' = Some x"
    if built_rec: "fst (Planet_class fs import_config pyeval element_array molecule_array
              file_path config_file_path s) = Inr rec" for rec
  proof -
    obtain self1 self2 atmo core where
      l: "fst (load_planet fs file_path Map.empty s) = (None, self1)"
      and m: "load_parameters_from_config import_config pyeval config_file_path self1 = (None, self2)"
      and "Planet_atmo element_array molecule_array self2 = Inr atmo"
      and "Planet_core element_array molecule_array (self2(''atmo'' \<mapsto> Instance atmo)) = Inr core"
      and r: "rec = self2(''atmo'' \<mapsto> Instance atmo, ''core'' \<mapsto> Instance core)"
      using built_rec by (rule Planet_class_stages)
    obtain raw where raw: "self1 ''a_p'' = Some (Array (np_div raw AU))"
      using loaded_a_p [OF l] by blast
    obtain config where c: "import_config config_file_path = Inr config"
      using m by (rule merge_success_config)
    have "''a_p'' \<in> set config_fields"
      by (simp add: config_fields_def)
    with m c have "\<exists>x. eval_kwargs pyeval (get_section config (own_section ''a_p'') ''a_p'') = Inr x \<and>
                    self2 ''a_p'' = Some x"
      by (rule merge_value)
    then obtain x where x: "eval_kwargs pyeval (get_section config ''config_planet'' ''a_p'') = Inr x"
      and "self2 ''a_p'' = Some x"
      by (auto simp: own_section_def)
    then have "rec ''a_p'' = Some x"
      by (simp add: r)
    with l raw c x show ?thesis by blast
  qed
  show ?thesis
    using count distinct_config_fields frame assigned built by blast
qed

theorem config_merge_overwrites_a_p_witness:
  "\<exists>rec. fst (Planet_class example_fs example_config literal_eval [''Fe''] [''H2O'']
                ''simulation.h5'' ''config.yaml'' example_io) = Inr rec \<and>
     rec ''a_p'' = Some (PyFloat (1 / 10))"
proof -
  obtain rec where rec: "fst (Planet_class example_fs example_config literal_eval [''Fe''] [''H2O'']
                ''simulation.h5'' ''config.yaml'' example_io) = Inr rec"
    using example_constructs [of "''config.yaml''"] by auto
  have "\<exists>self1 raw config x.
         fst (load_planet example_fs ''simulation.h5'' Map.empty example_io) = (None, self1) \<and>
         self1 ''a_p'' = Some (Array (np_div raw AU)) \<and>
         example_config ''config.yaml'' = Inr config \<and>
         eval_kwargs literal_eval (get_section config ''config_planet'' ''a_p'') = Inr x \<and>
         rec ''a_p'' = Some x"
    using config_merge_overwrites_a_p [of example_config literal_eval "''config.yaml''" Map.empty
        example_fs "[''Fe'']" "[''H2O'']" "''simulation.h5''" example_io] rec
    by blast
  then have "rec ''a_p'' = Some (PyFloat (1 / 10))"
    by (auto simp: example_config_def get_section_def eval_kwargs_def literal_eval_def
        parse_number_def digit_of_def)
  with rec show ?thesis by blast
qed

text \<open>
  C4. For a configuration without the two sections the merge returns normally and all
  thirteen fields are null. In general, after a merge that returns normally, each of the
  thirteen fields is determined by its own section of the parsed configuration alone: it is
  null when that section is absent or does not give the option (also when the other
  section gives an option of that name), and the value evaluated from the option's text
  when it does. The concrete runs are a configuration with no section and one in which
  each section also holds an option of the other.
\<close>

theorem config_merge_defaults:
  assumes "import_config config_file_path = Inr config"
  shows "(config ''config_planet'' = None \<and> config ''config_planetesimal_accretion'' = None \<longrightarrow>
            (\<exists>self'. load_parameters_from_config import_config pyeval config_file_path self = (None, self') \<and>
               (\<forall>k\<in>set config_fields. self' k = Some PyNone))) \<and>
         (\<forall>self'. load_parameters_from_config import_config pyeval config_file_path self = (None, self') \<longrightarrow>
            (\<forall>k\<in>set config_fields.
               case configured_text config k of
                 None \<Rightarrow> self' k = Some PyNone
               | Some txt \<Rightarrow> (\<exists>x. pyeval txt = Inr x \<and> self' k = Some x)))"
proof -
  have own: "get_section config (own_section k) k = configured_text config k" for k
    by (simp add: get_section_def configured_text_def split: option.splits)
  have option: "case configured_text config k of
                 None \<Rightarrow> self' k = Some PyNone
               | Some txt \<Rightarrow> (\<exists>x. pyeval txt = Inr x \<and> self' k = Some x)"
    if run: "load_parameters_from_config import_config pyeval config_file_path self = (None, self')"
      and k: "k \<in> set config_fields" for self' k
    using merge_value [OF run assms k]
    by (auto simp: own eval_kwargs_def split: option.splits)
  have none: "\<exists>self'. load_parameters_from_config import_config pyeval config_file_path self = (None, self') \<and>
               (\<forall>k\<in>set config_fields. self' k = Some PyNone)"
    if absent: "config ''config_planet'' = None" "config ''config_planetesimal_accretion'' = None"
  proof -
    have empty: "configured_text config k = None" for k
      using absent by (auto simp: configured_text_def own_section_def)
    have "\<forall>kv\<in>set (config_options (get_section config ''config_planet'')
            (get_section config ''config_planetesimal_accretion'')).
           \<exists>x. eval_kwargs pyeval (snd kv) = Inr x"
      using absent by (simp add: config_options_def get_section_def eval_kwargs_def)
    then obtain self' where
      run: "load_parameters_from_config import_config pyeval config_file_path self = (None, self')"
      using assign_options_ok [of _ pyeval self]
      by (auto simp: merge_unfold [of import_config config_file_path config, OF assms])
    have "self' k = Some PyNone" if "k \<in> set config_fields" for k
      using option [OF run that] empty [of k] by simp
    with run show ?thesis by blast
  qed
  show ?thesis using option none by blast
qed

theorem config_merge_defaults_witness:
  "(\<exists>self'. load_parameters_from_config example_config literal_eval ''empty.yaml''
              (Map.empty :: real obj) = (None, self') \<and>
      self' ''migration'' = Some PyNone \<and> self' ''R_pla'' = Some PyNone) \<and>
   (\<exists>self'. load_parameters_from_config example_config literal_eval ''mixed.yaml''
              (Map.empty :: real obj) = (None, self') \<and>
      self' ''migration'' = Some (PyBool False) \<and> self' ''a_p'' = Some (PyFloat (1 / 10)) \<and>
      self' ''R_pla'' = Some PyNone \<and> self' ''rho_pla'' = Some (PyFloat (3 / 2)) \<and>
      self' ''t_0'' = Some PyNone)"
proof -
  have names: "''migration'' \<in> set config_fields" "''R_pla'' \<in> set config_fields"
    "''a_p'' \<in> set config_fields" "''rho_pla'' \<in> set config_fields" "''t_0'' \<in> set config_fields"
    by (simp_all add: config_fields_def)
  have e: "example_config ''empty.yaml'' = Inr Map.empty"
    by (simp add: example_config_def)
  obtain self1 :: "real obj" where
    r1: "load_parameters_from_config example_config literal_eval ''empty.yaml'' Map.empty = (None, self1)"
    and v1: "\<forall>k\<in>set config_fields. self1 k = Some PyNone"
    using config_merge_defaults [of example_config "''empty.yaml''" Map.empty literal_eval Map.empty, OF e] by auto
  have first: "self1 ''migration'' = Some PyNone \<and> self1 ''R_pla'' = Some PyNone"
    using v1 names by simp
  let ?config = "[''config_planet'' \<mapsto>
                    [''migration'' \<mapsto> ''False'', ''a_p'' \<mapsto> ''0.1'', ''R_pla'' \<mapsto> ''7''],
                  ''config_planetesimal_accretion'' \<mapsto>
                    [''rho_pla'' \<mapsto> ''1.5'', ''migration'' \<mapsto> ''True'']]"
  have c: "example_config ''mixed.yaml'' = Inr ?config"
    by (simp add: example_config_def)
  obtain self2 :: "real obj" where
    r2: "load_parameters_from_config example_config literal_eval ''mixed.yaml'' Map.empty = (None, self2)"
    using assign_options_ok [of _ literal_eval Map.empty] example_config_evaluates [of "''mixed.yaml''"]
    by (auto simp: merge_unfold [of example_config "''mixed.yaml''" ?config, OF c] c)
  have v2: "\<forall>k\<in>set config_fields.
               case configured_text ?config k of
                 None \<Rightarrow> self2 k = Some PyNone
               | Some txt \<Rightarrow> (\<exists>x. literal_eval txt = Inr x \<and> self2 k = Some x)"
    using config_merge_defaults [of example_config "''mixed.yaml''" ?config literal_eval Map.empty, OF c] r2 by blast
  have "self2 ''migration'' = Some (PyBool False)"
    using v2 names(1) by (auto simp: configured_text_def own_section_def literal_eval_def)
  moreover have "self2 ''R_pla'' = Some PyNone"
    using v2 names(2) by (auto simp: configured_text_def own_section_def)
  moreover have "self2 ''a_p'' = Some (PyFloat (1 / 10))"
    using v2 names(3)
    by (auto simp: configured_text_def own_section_def literal_eval_def parse_number_def digit_of_def)
  moreover have "self2 ''rho_pla'' = Some (PyFloat (3 / 2))"
    using v2 names(4)
    by (auto simp: configured_text_def own_section_def literal_eval_def parse_number_def digit_of_def)
  moreover have "self2 ''t_0'' = Some PyNone"
    using v2 names(5) by (auto simp: configured_text_def own_section_def)
  ultimately show ?thesis using r1 first r2 by blast
qed

text \<open>
  C6. With the literal evaluation, for a configuration whose planet section gives
  \<open>migration\<close> the text \<^verbatim>\<open>False\<close> and \<open>a_p\<close> the text \<^verbatim>\<open>0.1\<close>, a constructed object
  has \<open>migration\<close> equal to the boolean False and \<open>a_p\<close> equal to the number one tenth,
  and neither is the string.
\<close>

theorem literal_options_are_typed:
  assumes "fst (Planet_class fs import_config literal_eval element_array molecule_array
                  file_path config_file_path s) = Inr rec"
    and "import_config config_file_path = Inr config"
    and "config ''config_planet'' = Some sec"
    and "sec ''migration'' = Some ''False''"
    and "sec ''a_p'' = Some ''0.1''"
  shows "rec ''migration'' = Some (PyBool False) \<and> rec ''a_p'' = Some (PyFloat (1 / 10)) \<and>
         rec ''migration'' \<noteq> Some (PyStr ''False'') \<and> rec ''a_p'' \<noteq> Some (PyStr ''0.1'')"
proof -
  obtain self1 self2 atmo core where
    "fst (load_planet fs file_path Map.empty s) = (None, self1)"
    and m: "load_parameters_from_config import_config literal_eval config_file_path self1 = (None, self2)"
    and "Planet_atmo element_array molecule_array self2 = Inr atmo"
    and "Planet_core element_array molecule_array (self2(''atmo'' \<mapsto> Instance atmo)) = Inr core"
    and r: "rec = self2(''atmo'' \<mapsto> Instance atmo, ''core'' \<mapsto> Instance core)"
    using assms(1) by (rule Planet_class_stages)
  have "''migration'' \<in> set config_fields" "''a_p'' \<in> set config_fields"
    by (simp_all add: config_fields_def)
  from merge_value [OF m assms(2) this(1)] merge_value [OF m assms(2) this(2)]
  have "self2 ''migration'' = Some (PyBool False)" "self2 ''a_p'' = Some (PyFloat (1 / 10))"
    using assms(3,4,5)
    by (auto simp: own_section_def get_section_def eval_kwargs_def literal_eval_def
        parse_number_def digit_of_def)
  then show ?thesis by (simp add: r)
qed

theorem literal_options_are_typed_witness:
  "\<exists>rec. fst (Planet_class example_fs example_config literal_eval [''Fe''] [''H2O'']
                ''simulation.h5'' ''config.yaml'' example_io) = Inr rec \<and>
     rec ''migration'' = Some (PyBool False) \<and> rec ''a_p'' = Some (PyFloat (1 / 10))"
proof -
  obtain rec where rec: "fst (Planet_class example_fs example_config literal_eval [''Fe''] [''H2O'']
                ''simulation.h5'' ''config.yaml'' example_io) = Inr rec"
    using example_constructs [of "''config.yaml''"] by auto
  have "rec ''migration'' = Some (PyBool False) \<and> rec ''a_p'' = Some (PyFloat (1 / 10))"
    using literal_options_are_typed [OF rec,
        of "[''config_planet'' \<mapsto> [''migration'' \<mapsto> ''False'', ''a_p'' \<mapsto> ''0.1'']]"
        "[''migration'' \<mapsto> ''False'', ''a_p'' \<mapsto> ''0.1'']"]
    by (simp add: example_config_def)
  with rec show ?thesis by blast
qed

text \<open>
  C9. When the planet section has no option \<open>a_p\<close> (also when there is no planet
  section), a constructed object has \<open>a_p\<close> null, although the load had set \<open>a_p\<close> to
  the series of the file divided by \<open>AU\<close>.
\<close>

theorem missing_a_p_discards_series:
  assumes "fst (Planet_class fs import_config pyeval element_array molecule_array
                  file_path config_file_path s) = Inr rec"
    and "import_config config_file_path = Inr config"
    and "get_section config ''config_planet'' ''a_p'' = None"
  shows "rec ''a_p'' = Some PyNone \<and>
         (\<exists>self1 raw. fst (load_planet fs file_path Map.empty s) = (None, self1) \<and>
            self1 ''a_p'' = Some (Array (np_div raw AU)))"
proof -
  obtain self1 self2 atmo core where
    l: "fst (load_planet fs file_path Map.empty s) = (None, self1)"
    and m: "load_parameters_from_config import_config pyeval config_file_path self1 = (None, self2)"
    and "Planet_atmo element_array molecule_array self2 = Inr atmo"
    and "Planet_core element_array molecule_array (self2(''atmo'' \<mapsto> Instance atmo)) = Inr core"
    and r: "rec = self2(''atmo'' \<mapsto> Instance atmo, ''core'' \<mapsto> Instance core)"
    using assms(1) by (rule Planet_class_stages)
  have "''a_p'' \<in> set config_fields"
    by (simp add: config_fields_def)
  from merge_value [OF m assms(2) this]
  have "self2 ''a_p'' = Some PyNone"
    using assms(3) by (auto simp: own_section_def eval_kwargs_def)
  then have "rec ''a_p'' = Some PyNone" by (simp add: r)
  moreover obtain raw where "self1 ''a_p'' = Some (Array (np_div raw AU))"
    using loaded_a_p [OF l] by blast
  ultimately show ?thesis using l by blast
qed

theorem missing_a_p_discards_series_witness:
  "\<exists>rec. fst (Planet_class example_fs example_config literal_eval [''Fe''] [''H2O'']
                ''simulation.h5'' ''empty.yaml'' example_io) = Inr rec \<and>
     rec ''a_p'' = Some PyNone"
proof -
  obtain rec where rec: "fst (Planet_class example_fs example_config literal_eval [''Fe''] [''H2O'']
                ''simulation.h5'' ''empty.yaml'' example_io) = Inr rec"
    using example_constructs [of "''empty.yaml''"] by auto
  have "rec ''a_p'' = Some PyNone"
    using missing_a_p_discards_series [OF rec, of Map.empty]
    by (simp add: example_config_def get_section_def)
  with rec show ?thesis by blast
qed

end
